theory Spec2Isabelle
  imports Complex_Main
begin

section \<open>Reference computation of the hexahedron shape-function test\<close>

text \<open>
  The development embeds the reference computation of
  \<^verbatim>\<open>coreComponents/finiteElement/unitTests/testShapeFunctionKernel.cpp\<close>:
  the static function \<^verbatim>\<open>inverse\<close> and the body of the third \<^verbatim>\<open>forAll\<close> of
  \<^verbatim>\<open>testKernelDriver\<close>, which recomputes shape values, Jacobian, determinant and
  physical gradients for every quadrature point.

  Conventions of the embedding:
  \<^item> \<^verbatim>\<open>real64\<close> is idealised as \<^typ>\<open>real\<close>: rounding is not modelled.
  \<^item> A fixed-size array \<^verbatim>\<open>real64 [m][n]\<close> is a list of \<open>m\<close> lists of \<open>n\<close> reals; the
    C++ types fix the sizes, the predicates \<open>is3x3\<close> and \<open>is8x3\<close> state them.
  \<^item> A division whose divisor is zero has no real value; it is the error
    \<open>DivisionByZero\<close>, and what is computed from its result by multiplication and addition
    is lost with it. The source has no test for it: the error stands for the value that is
    not a real number, an infinity of binary64 when the numerator is not zero. The
    reciprocal of that infinity is a real number again, zero (line 165).
  \<^item> Counting loops are \<^const>\<open>fold\<close> over \<open>[0..<n]\<close>, array stores are list updates.
  \<^item> \<^verbatim>\<open>xCoords\<close> is a local constant of the test; the functions below take the
    element coordinates as a parameter \<open>X\<close> and the test's value is \<open>xCoords\<close>.
\<close>

subsection \<open>Division\<close>

datatype error = DivisionByZero

definition fdiv :: "real \<Rightarrow> real \<Rightarrow> error + real" where
  "fdiv a b = (if b = 0 then Inl DivisionByZero else Inr (a / b))"

subsection \<open>The function \<^verbatim>\<open>inverse\<close> (lines 31-54)\<close>

text \<open>
  The argument is overwritten in place and the reciprocal of the determinant is returned;
  the model returns the new matrix together with the returned scalar. It is called
  \<open>inverse3x3\<close> because \<open>inverse\<close> is the reciprocal of HOL. The loop reads \<^verbatim>\<open>scratch\<close> only,
  which was filled from the argument before the first store.
\<close>

definition inverse3x3 :: "real list list \<Rightarrow> error + (real list list \<times> real)" where
  "inverse3x3 J =
    (let scratch =
       [[J!1!1 * J!2!2 - J!1!2 * J!2!1, J!1!2 * J!2!0 - J!1!0 * J!2!2, J!1!0 * J!2!1 - J!1!1 * J!2!0],
        [J!0!2 * J!2!1 - J!0!1 * J!2!2, J!0!0 * J!2!2 - J!0!2 * J!2!0, J!0!1 * J!2!0 - J!0!0 * J!2!1],
        [J!0!1 * J!1!2 - J!0!2 * J!1!1, J!0!2 * J!1!0 - J!0!0 * J!1!2, J!0!0 * J!1!1 - J!0!1 * J!1!0]]
     in case fdiv 1 (J!0!0 * scratch!0!0 + J!1!0 * scratch!1!0 + J!2!0 * scratch!2!0) of
          Inl e \<Rightarrow> Inl e
        | Inr invDet \<Rightarrow>
            Inr (fold (\<lambda>i J. fold (\<lambda>j J. J[i := (J!i)[j := scratch!j!i * invDet]]) [0..<3] J) [0..<3] J,
                 invDet))"

subsection \<open>Constants of \<^verbatim>\<open>testKernelDriver\<close>\<close>

definition numNodes :: nat where
  "numNodes = 8"

definition numQuadraturePoints :: nat where
  "numQuadraturePoints = 8"

definition xCoords :: "real list list" where
  "xCoords =
    [[-1.1, -1.3, -1.1],
     [ 1.3, -1.1, -1.2],
     [-1.2,  1.1, -1.1],
     [ 1.1,  1.2, -1.3],
     [-1.3, -1.2,  1.1],
     [ 1.1, -1.3,  1.2],
     [-1.2,  1.2,  1.3],
     [ 1.2,  1.1,  1.1]]"

definition pCoords :: "real list list" where
  "pCoords =
    [[-1,  1, -1,  1, -1,  1, -1, 1],
     [-1, -1,  1,  1, -1, -1,  1, 1],
     [-1, -1, -1, -1,  1,  1,  1, 1]]"

definition quadratureFactor :: real where
  "quadratureFactor = 1.0 / 1.732050807568877293528"

subsection \<open>The reference loop body (lines 131-195)\<close>

text \<open>Reference coordinate of quadrature point \<open>q\<close> (lines 133-135).\<close>

definition xi_q :: "nat \<Rightarrow> real list" where
  "xi_q q =
     [quadratureFactor * pCoords!0!q, quadratureFactor * pCoords!1!q, quadratureFactor * pCoords!2!q]"

text \<open>Shape value of node \<open>a\<close> (lines 139-141).\<close>

definition N_a :: "real list \<Rightarrow> nat \<Rightarrow> real" where
  "N_a xi a =
     0.125 * (1 + xi!0 * pCoords!0!a) * (1 + xi!1 * pCoords!1!a) * (1 + xi!2 * pCoords!2!a)"

text \<open>Reference derivatives of node \<open>a\<close> (lines 148-156 and again 171-179).\<close>

definition dNdXi_a :: "real list \<Rightarrow> nat \<Rightarrow> real list" where
  "dNdXi_a xi a =
    [0.125 * pCoords!0!a * (1 + xi!1 * pCoords!1!a) * (1 + xi!2 * pCoords!2!a),
     0.125 * (1 + xi!0 * pCoords!0!a) * pCoords!1!a * (1 + xi!2 * pCoords!2!a),
     0.125 * (1 + xi!0 * pCoords!0!a) * (1 + xi!1 * pCoords!1!a) * pCoords!2!a]"

text \<open>The Jacobian accumulated over the nodes (lines 145-164).\<close>

definition jacobian :: "real list list \<Rightarrow> real list \<Rightarrow> real list list" where
  "jacobian X xi =
     fold (\<lambda>a J. let dNdXi = dNdXi_a xi a in
             fold (\<lambda>i J. fold (\<lambda>j J. J[i := (J!i)[j := J!i!j + X!a!i * dNdXi!j]]) [0..<3] J) [0..<3] J)
          [0..<numNodes] [[0, 0, 0], [0, 0, 0], [0, 0, 0]]"

text \<open>The physical gradient of one node from its reference gradient (lines 170, 181-187).\<close>

definition dNdX_a :: "real list list \<Rightarrow> real list \<Rightarrow> real list" where
  "dNdX_a J dNdXi =
     fold (\<lambda>i dNdX. fold (\<lambda>j dNdX. dNdX[i := dNdX!i + dNdXi!j * J!j!i]) [0..<3] dNdX) [0..<3] [0, 0, 0]"

text \<open>
  The values the loop body computes at one reference coordinate and compares with the
  kernel's output arrays. First the eight shape values (lines 137-143), which involve no
  division.
\<close>

definition N_q :: "real list \<Rightarrow> real list" where
  "N_q xi = map (N_a xi) [0..<numNodes]"

text \<open>
  Then \<^verbatim>\<open>detJ = 1/inverse( J )\<close> (line 165): the reciprocal of the scalar \<^verbatim>\<open>inverse\<close> returned,
  which is the quotient \<open>1 / D\<close> of line 43. When \<open>D\<close> is zero, binary64 gives that
  quotient of the numerator 1 an infinity, and line 165 gives the reciprocal of an
  infinity the value zero: the error of \<open>inverse3x3\<close> stands for the infinity, and \<^verbatim>\<open>detJ\<close>
  is 0. Otherwise the reciprocal is the guarded division.
\<close>

definition reciprocalOfInvDet :: "error + real \<Rightarrow> error + real" where
  "reciprocalOfInvDet r = (case r of Inl e \<Rightarrow> Inr 0 | Inr invDet \<Rightarrow> fdiv 1 invDet)"

text \<open>
  Last the eight physical gradients (lines 168-193), computed from \<^verbatim>\<open>J\<close> after \<^verbatim>\<open>inverse\<close>
  has overwritten it. When \<^verbatim>\<open>inverse\<close> divided by zero, the entries of \<^verbatim>\<open>J\<close> are products with
  an infinity and no real numbers, and neither are the gradients.
\<close>

record pointValues =
  detJ :: "error + real"
  dNdX :: "error + real list list"

definition referenceAt :: "real list list \<Rightarrow> real list \<Rightarrow> pointValues" where
  "referenceAt X xi =
     (let J = jacobian X xi; r = inverse3x3 J
      in \<lparr>detJ = reciprocalOfInvDet (map_sum id snd r),
          dNdX = (case r of
                    Inl e \<Rightarrow> Inl e
                  | Inr (Jinv, invDet) \<Rightarrow>
                      Inr (map (\<lambda>a. dNdX_a Jinv (dNdXi_a xi a)) [0..<numNodes]))\<rparr>)"

text \<open>One iteration of the loop over the quadrature points (lines 131-195).\<close>

definition testKernelDriver :: "real list list \<Rightarrow> nat \<Rightarrow> real list \<times> pointValues" where
  "testKernelDriver X q = (let xi = xi_q q in (N_q xi, referenceAt X xi))"

section \<open>Notions the properties are stated with\<close>

definition is3x3 :: "real list list \<Rightarrow> bool" where
  "is3x3 J = (length J = 3 \<and> list_all (\<lambda>r. length r = 3) J)"

definition is8x3 :: "real list list \<Rightarrow> bool" where
  "is8x3 X = (length X = numNodes \<and> list_all (\<lambda>r. length r = 3) X)"

text \<open>Minor, cofactor, cofactor expansion along the first row, adjugate.\<close>

definition minor :: "real list list \<Rightarrow> nat \<Rightarrow> nat \<Rightarrow> real" where
  "minor J i j =
     (let r = filter (\<lambda>k. k \<noteq> i) [0..<3]; c = filter (\<lambda>k. k \<noteq> j) [0..<3]
      in J!(r!0)!(c!0) * J!(r!1)!(c!1) - J!(r!0)!(c!1) * J!(r!1)!(c!0))"

definition cofactor :: "real list list \<Rightarrow> nat \<Rightarrow> nat \<Rightarrow> real" where
  "cofactor J i j = (- 1) ^ (i + j) * minor J i j"

definition det3 :: "real list list \<Rightarrow> real" where
  "det3 J = (\<Sum>j<3. J!0!j * cofactor J 0 j)"

definition adjugate :: "real list list \<Rightarrow> real list list" where
  "adjugate J = map (\<lambda>i. map (\<lambda>j. cofactor J j i) [0..<3]) [0..<3]"

definition scaledAdjugate :: "real list list \<Rightarrow> real list list" where
  "scaledAdjugate J = map (map (\<lambda>v. v * (1 / det3 J))) (adjugate J)"

definition mat_mul :: "real list list \<Rightarrow> real list list \<Rightarrow> real list list" where
  "mat_mul A B = map (\<lambda>i. map (\<lambda>j. \<Sum>k<3. A!i!k * B!k!j) [0..<3]) [0..<3]"

definition identity3 :: "real list list" where
  "identity3 = [[1, 0, 0], [0, 1, 0], [0, 0, 1]]"

text \<open>The Jacobian as the specification writes it: \<open>J[i][j] = sum_a coord[a][i] * dNdXi[a][j]\<close>.\<close>

definition J_entry :: "real list list \<Rightarrow> real list \<Rightarrow> nat \<Rightarrow> nat \<Rightarrow> real" where
  "J_entry X xi i j = (\<Sum>a<numNodes. X!a!i * dNdXi_a xi a ! j)"

definition J_spec :: "real list list \<Rightarrow> real list \<Rightarrow> real list list" where
  "J_spec X xi = map (\<lambda>i. map (\<lambda>j. J_entry X xi i j) [0..<3]) [0..<3]"

text \<open>
  The sum over the nodes of the outer products \<open>coord[a] (x) dNdX[a]\<close>, and the sum of the
  gradient vectors of a table of eight gradients.
\<close>

definition outerProductSum :: "real list list \<Rightarrow> real list list \<Rightarrow> real list list" where
  "outerProductSum X G = map (\<lambda>i. map (\<lambda>k. \<Sum>a<numNodes. X!a!i * G!a!k) [0..<3]) [0..<3]"

definition gradientSum :: "real list list \<Rightarrow> real list" where
  "gradientSum G = map (\<lambda>i. \<Sum>a<numNodes. G!a!i) [0..<3]"

text \<open>
  The element with its nodes at the eight corners \<open>(+-1, +-1, +-1)\<close> in the canonical order
  (axis 0 varies fastest), and the Gauss points \<open>(+-1/sqrt 3, +-1/sqrt 3, +-1/sqrt 3)\<close> in
  the same order. The test itself uses \<open>xi_q\<close>, whose factor is a decimal literal.
\<close>

definition cubeCoords :: "real list list" where
  "cubeCoords = [[-1, -1, -1], [1, -1, -1], [-1, 1, -1], [1, 1, -1],
                 [-1, -1, 1], [1, -1, 1], [-1, 1, 1], [1, 1, 1]]"

definition gaussPoint :: "nat \<Rightarrow> real list" where
  "gaussPoint q = map (\<lambda>k. pCoords!k!q / sqrt 3) [0..<3]"

text \<open>
  A single-axis flip of the corner enumeration: corner \<open>a\<close> is exchanged with the corner
  whose sign on axis \<open>k\<close> is the opposite one; \<open>flipAxis k X\<close> lists the node coordinates
  of \<open>X\<close> in the flipped enumeration. \<open>mirror k xi\<close> negates component \<open>k\<close> of a reference
  coordinate.
\<close>

definition flipCorner :: "nat \<Rightarrow> nat \<Rightarrow> nat" where
  "flipCorner k a = (if pCoords!k!a < 0 then a + 2 ^ k else a - 2 ^ k)"

definition flipAxis :: "nat \<Rightarrow> real list list \<Rightarrow> real list list" where
  "flipAxis k X = map (\<lambda>a. X ! flipCorner k a) [0..<numNodes]"

definition mirror :: "nat \<Rightarrow> real list \<Rightarrow> real list" where
  "mirror k xi = xi[k := - xi ! k]"

text \<open>The determinant the loop body computes at quadrature point \<open>q\<close>.\<close>

definition detJ_at :: "real list list \<Rightarrow> nat \<Rightarrow> error + real" where
  "detJ_at X q = detJ (snd (testKernelDriver X q))"

text \<open>
  Modelled from the spec: the quadrature rule of the kernel, which is not among the sources.
  A quadrature rule is an ordered sequence of (reference coordinate, scalar weight) pairs
  (spec, section 3). The rule of the kernel has the eight Gauss points
  \<open>(+-1/sqrt 3, +-1/sqrt 3, +-1/sqrt 3)\<close> (sections 2 and 8) and one fixed weight \<open>w\<close>
  (section 6).
\<close>

definition gaussRule :: "real \<Rightarrow> (real list \<times> real) list" where
  "gaussRule w = map (\<lambda>q. (gaussPoint q, w)) [0..<numQuadraturePoints]"

text \<open>The same rule at the points of the test, which have a decimal literal for \<open>1/sqrt 3\<close>.\<close>

definition literalRule :: "real \<Rightarrow> (real list \<times> real) list" where
  "literalRule w = map (\<lambda>q. (xi_q q, w)) [0..<numQuadraturePoints]"

text \<open>
  Modelled from the spec: the kernel function
  \<^verbatim>\<open>Hexahedron_Lagrange1_GaussLegendre2::shapeFunctionDerivatives\<close>, which the test calls at
  lines 104-106 to fill \<^verbatim>\<open>viewDetJ\<close> and \<^verbatim>\<open>viewdNdX\<close> and whose header is not among the sources.
  Sections 4.1 to 4.4 and 6 of the spec: with the reference derivatives at the point \<open>q\<close> of
  the rule, \<open>J[i][j] = sum_a coord[a][i] * dNdXi[a][j]\<close>; the determinant by cofactor
  expansion; the inverse as the adjugate scaled by \<open>1/det\<close>, undefined when \<open>det\<close> is zero;
  \<open>dNdX[a][i] = sum_j dNdXi[a][j] * Jinv[j][i]\<close>. It returns the determinant output, which is
  \<open>det(J)\<close>, the raw determinant, and the physical derivatives. The reference derivatives of
  section 4.1 are the formula of \<open>dNdXi_a\<close>. The rule is a parameter.
\<close>

definition shapeFunctionDerivatives ::
    "(real list \<times> real) list \<Rightarrow> nat \<Rightarrow> real list list \<Rightarrow> real \<times> (error + real list list)" where
  "shapeFunctionDerivatives rule q X =
     (let xi = fst (rule ! q); J = J_spec X xi; d = det3 J
      in (d,
          if d = 0 then Inl DivisionByZero
          else Inr (map (\<lambda>a. map (\<lambda>i. \<Sum>j<3. dNdXi_a xi a ! j * scaledAdjugate J ! j ! i) [0..<3])
                      [0..<numNodes])))"

definition positiveAtAllPoints :: "real list list \<Rightarrow> bool" where
  "positiveAtAllPoints X =
     list_all (\<lambda>q. case detJ_at X q of Inl e \<Rightarrow> False | Inr d \<Rightarrow> 0 < d) [0..<numQuadraturePoints]"

definition negativeAtAllPoints :: "real list list \<Rightarrow> bool" where
  "negativeAtAllPoints X =
     list_all (\<lambda>q. case detJ_at X q of Inl e \<Rightarrow> False | Inr d \<Rightarrow> d < 0) [0..<numQuadraturePoints]"

text \<open>
  Three sample elements. \<open>flatCoords\<close> is the cube flattened into the plane \<open>z = 0\<close>, with
  Jacobian determinant 0 everywhere. \<open>wedgeCoords\<close> has the nodes \<open>(2 s0, s1 (2 + s0), 2 s2)\<close> for the
  corner signs \<open>s\<close>: a prism over a trapezium, with Jacobian determinant \<open>4 (2 + xi0)\<close>,
  positive on the whole reference cube. \<open>twistedCoords\<close> has the nodes
  \<open>(s0, s1 (1 + 2 s0), s2)\<close>, with determinant \<open>1 + 2 xi0\<close>, which changes sign inside the
  reference cube.
\<close>

definition flatCoords :: "real list list" where
  "flatCoords = [[-1, -1, 0], [1, -1, 0], [-1, 1, 0], [1, 1, 0],
                 [-1, -1, 0], [1, -1, 0], [-1, 1, 0], [1, 1, 0]]"

definition wedgeCoords :: "real list list" where
  "wedgeCoords = [[-2, -1, -2], [2, -3, -2], [-2, 1, -2], [2, 3, -2],
                  [-2, -1, 2], [2, -3, 2], [-2, 1, 2], [2, 3, 2]]"

definition twistedCoords :: "real list list" where
  "twistedCoords = [[-1, 1, -1], [1, -3, -1], [-1, -1, -1], [1, 3, -1],
                    [-1, 1, 1], [1, -3, 1], [-1, -1, 1], [1, 3, 1]]"

text \<open>A sample matrix with determinant 40, used to instantiate the theorems.\<close>

definition J_sample :: "real list list" where
  "J_sample = [[2, 0, 0], [0, 4, 0], [1, 0, 5]]"

section \<open>Unrolling the loops\<close>

lemma upt3: "[0..<3] = [0, 1, 2]"
  by (simp add: upt_rec)

lemma sum3: "(\<Sum>k<3. f k) = f 0 + f 1 + f (2::nat)"
  by (simp add: numeral_3_eq_3 numeral_2_eq_2)

lemma sum8: "(\<Sum>k<8. f k) = f 0 + f 1 + f 2 + f 3 + f 4 + f 5 + f 6 + f (7::nat)"
  by (simp add: eval_nat_numeral)

lemma is3x3E:
  assumes "is3x3 J"
  obtains a b c d e f g h i where "J = [[a, b, c], [d, e, f], [g, h, i]]"
proof -
  from assms have l: "length J = 3" and r: "\<forall>r\<in>set J. length r = 3"
    by (auto simp: is3x3_def list_all_iff)
  from l obtain r0 r1 r2 where J: "J = [r0, r1, r2]"
    by (auto simp: length_Suc_conv numeral_3_eq_3)
  from r J obtain a b c where "r0 = [a, b, c]"
    by (auto simp: length_Suc_conv numeral_3_eq_3)
  moreover from r J obtain d e f where "r1 = [d, e, f]"
    by (auto simp: length_Suc_conv numeral_3_eq_3)
  moreover from r J obtain g h i where "r2 = [g, h, i]"
    by (auto simp: length_Suc_conv numeral_3_eq_3)
  ultimately show ?thesis using J that by blast
qed

lemma vec3E:
  assumes "length (v :: real list) = 3"
  obtains x y z where "v = [x, y, z]"
  using assms by (auto simp: length_Suc_conv numeral_3_eq_3)

lemma is3x3_sample: "is3x3 J_sample"
  by (simp add: is3x3_def J_sample_def)

subsection \<open>Determinant and adjugate of an explicit matrix\<close>

lemma det3_explicit:
  "det3 [[a, b, c], [d, e, f], [g, h, i]]
     = a * (e * i - f * h) - b * (d * i - f * g) + c * (d * h - e * g)"
  by (simp add: det3_def cofactor_def minor_def sum3 upt3 algebra_simps)

lemma adjugate_explicit:
  "adjugate [[a, b, c], [d, e, f], [g, h, i]] =
     [[e * i - f * h, c * h - b * i, b * f - c * e],
      [f * g - d * i, a * i - c * g, c * d - a * f],
      [d * h - e * g, b * g - a * h, a * e - b * d]]"
  by (simp add: adjugate_def cofactor_def minor_def upt3 algebra_simps)

lemma det3_sample: "det3 J_sample = 40"
  by (simp add: J_sample_def det3_explicit)

subsection \<open>What \<open>inverse3x3\<close> computes\<close>

lemma inverse3x3_explicit:
  "inverse3x3 [[a, b, c], [d, e, f], [g, h, i]] =
     (let D = a * (e * i - f * h) + d * (c * h - b * i) + g * (b * f - c * e) in
      if D = 0 then Inl DivisionByZero
      else Inr ([[(e * i - f * h) * (1 / D), (c * h - b * i) * (1 / D), (b * f - c * e) * (1 / D)],
                 [(f * g - d * i) * (1 / D), (a * i - c * g) * (1 / D), (c * d - a * f) * (1 / D)],
                 [(d * h - e * g) * (1 / D), (b * g - a * h) * (1 / D), (a * e - b * d) * (1 / D)]],
                1 / D))"
  by (simp add: inverse3x3_def fdiv_def upt3 Let_def)

lemma denominator_is_det3:
  "a * (e * i - f * h) + d * (c * h - b * i) + g * (b * f - c * e)
     = det3 [[a, b, c], [d, e, f], [g, h, i]]"
  by (simp add: det3_explicit algebra_simps)

lemma inverse3x3_char:
  assumes "is3x3 J"
  shows "inverse3x3 J =
     (if det3 J = 0 then Inl DivisionByZero else Inr (scaledAdjugate J, 1 / det3 J))"
proof -
  from assms obtain a b c d e f g h i where J: "J = [[a, b, c], [d, e, f], [g, h, i]]"
    by (rule is3x3E)
  show ?thesis
    unfolding J inverse3x3_explicit denominator_is_det3 scaledAdjugate_def adjugate_explicit
    by (simp add: Let_def)
qed

lemma scaledAdjugate_mul_left_explicit:
  assumes D: "det3 [[a, b, c], [d, e, f], [g, h, i]] \<noteq> 0"
  shows "mat_mul (scaledAdjugate [[a, b, c], [d, e, f], [g, h, i]])
                 [[a, b, c], [d, e, f], [g, h, i]] = identity3"
proof -
  define D where "D = det3 [[a, b, c], [d, e, f], [g, h, i]]"
  have D0: "D \<noteq> 0" using D by (simp add: D_def)
  have Dx: "D = a * (e * i - f * h) - b * (d * i - f * g) + c * (d * h - e * g)"
    by (simp add: D_def det3_explicit)
  show ?thesis
    unfolding scaledAdjugate_def D_def[symmetric] adjugate_explicit
    using D0 apply (simp add: mat_mul_def identity3_def upt3 sum3 field_simps)
    apply (simp add: Dx algebra_simps)
    done
qed

lemma scaledAdjugate_mul_right_explicit:
  assumes D: "det3 [[a, b, c], [d, e, f], [g, h, i]] \<noteq> 0"
  shows "mat_mul [[a, b, c], [d, e, f], [g, h, i]]
                 (scaledAdjugate [[a, b, c], [d, e, f], [g, h, i]]) = identity3"
proof -
  define D where "D = det3 [[a, b, c], [d, e, f], [g, h, i]]"
  have D0: "D \<noteq> 0" using D by (simp add: D_def)
  have Dx: "D = a * (e * i - f * h) - b * (d * i - f * g) + c * (d * h - e * g)"
    by (simp add: D_def det3_explicit)
  show ?thesis
    unfolding scaledAdjugate_def D_def[symmetric] adjugate_explicit
    using D0 apply (simp add: mat_mul_def identity3_def upt3 sum3 field_simps)
    apply (simp add: Dx algebra_simps)
    done
qed

lemma scaledAdjugate_is_inverse:
  assumes "is3x3 J" and "det3 J \<noteq> 0"
  shows "mat_mul (scaledAdjugate J) J = identity3" and "mat_mul J (scaledAdjugate J) = identity3"
proof -
  from assms(1) obtain a b c d e f g h i where J: "J = [[a, b, c], [d, e, f], [g, h, i]]"
    by (rule is3x3E)
  show "mat_mul (scaledAdjugate J) J = identity3"
    using assms(2) unfolding J by (rule scaledAdjugate_mul_left_explicit)
  show "mat_mul J (scaledAdjugate J) = identity3"
    using assms(2) unfolding J by (rule scaledAdjugate_mul_right_explicit)
qed

lemma is3x3_scaledAdjugate: "is3x3 (scaledAdjugate J)"
  by (simp add: is3x3_def scaledAdjugate_def adjugate_def upt3)

section \<open>The inverse routine\<close>

text \<open>
  C2. For every 3x3 matrix \<open>J0\<close> whose cofactor-expansion determinant is not zero,
  \<^verbatim>\<open>inverse\<close> overwrites its argument with the adjugate of \<open>J0\<close> (the transpose of the
  cofactor matrix) scaled by \<open>1/det J0\<close>, and the new matrix \<open>M\<close> is a two-sided inverse:
  \<open>M * J0 = J0 * M = identity\<close>.
\<close>

theorem inverse_overwrites_with_scaled_adjugate:
  assumes "is3x3 J0" and "det3 J0 \<noteq> 0"
  shows "\<exists>M invDet. inverse3x3 J0 = Inr (M, invDet)
           \<and> M = scaledAdjugate J0 \<and> is3x3 M
           \<and> mat_mul M J0 = identity3 \<and> mat_mul J0 M = identity3"
proof -
  from assms have "inverse3x3 J0 = Inr (scaledAdjugate J0, 1 / det3 J0)"
    by (simp add: inverse3x3_char)
  moreover have "is3x3 (scaledAdjugate J0)"
    by (rule is3x3_scaledAdjugate)
  moreover from assms have "mat_mul (scaledAdjugate J0) J0 = identity3"
    by (rule scaledAdjugate_is_inverse(1))
  moreover from assms have "mat_mul J0 (scaledAdjugate J0) = identity3"
    by (rule scaledAdjugate_is_inverse(2))
  ultimately show ?thesis by blast
qed

theorem inverse_overwrites_with_scaled_adjugate_witness:
  "is3x3 J_sample \<and> det3 J_sample \<noteq> 0
   \<and> inverse3x3 J_sample = Inr ([[1/2, 0, 0], [0, 1/4, 0], [- (1/10), 0, 1/5]], 1/40)
   \<and> (\<exists>M invDet. inverse3x3 J_sample = Inr (M, invDet)
           \<and> M = scaledAdjugate J_sample \<and> is3x3 M
           \<and> mat_mul M J_sample = identity3 \<and> mat_mul J_sample M = identity3)"
proof -
  have h1: "is3x3 J_sample" by (rule is3x3_sample)
  have h2: "det3 J_sample \<noteq> 0" by (simp add: det3_sample)
  have v: "inverse3x3 J_sample = Inr ([[1/2, 0, 0], [0, 1/4, 0], [- (1/10), 0, 1/5]], 1/40)"
    by (simp add: J_sample_def inverse3x3_explicit)
  from h1 h2 v inverse_overwrites_with_scaled_adjugate [OF h1 h2] show ?thesis
    by (intro conjI)
qed

text \<open>
  C9. \<^verbatim>\<open>inverse\<close> has no test on the determinant: the only way it can fail is the division
  \<open>1 / (cofactor expansion)\<close> itself. With the division guarded, the error is reached exactly
  when the determinant is zero; every matrix with a nonzero determinant gets a result, none
  is rejected.
\<close>

theorem inverse_fails_iff_det_zero:
  assumes "is3x3 J"
  shows "(inverse3x3 J = Inl DivisionByZero) = (det3 J = 0)
       \<and> (\<exists>M invDet. inverse3x3 J = Inr (M, invDet)) = (det3 J \<noteq> 0)"
proof (cases "det3 J = 0")
  case True
  with assms have "inverse3x3 J = Inl DivisionByZero"
    by (simp add: inverse3x3_char)
  with True show ?thesis by simp
next
  case False
  with assms have "inverse3x3 J = Inr (scaledAdjugate J, 1 / det3 J)"
    by (simp add: inverse3x3_char)
  with False show ?thesis by simp
qed

theorem inverse_fails_iff_det_zero_witness:
  "is3x3 J_sample \<and> det3 J_sample \<noteq> 0 \<and> inverse3x3 J_sample \<noteq> Inl DivisionByZero
   \<and> is3x3 [[1, 2, 3], [2, 4, 6], [0, 0, 1]] \<and> det3 [[1, 2, 3], [2, 4, 6], [0, 0, 1]] = 0
   \<and> inverse3x3 [[1, 2, 3], [2, 4, 6], [0, 0, 1]] = Inl DivisionByZero"
proof -
  have h1: "is3x3 J_sample" by (rule is3x3_sample)
  have h2: "is3x3 [[1, 2, 3], [2, 4, 6], [0, 0, 1]]" by (simp add: is3x3_def)
  have d2: "det3 [[1, 2, 3], [2, 4, 6], [0, 0, 1]] = 0" by (simp add: det3_explicit)
  show ?thesis
    using h1 h2 d2 det3_sample
      inverse_fails_iff_det_zero [OF h1] inverse_fails_iff_det_zero [OF h2]
    by simp
qed

text \<open>
  C10. The value \<^verbatim>\<open>inverse\<close> returns is the reciprocal of the determinant of its input, not
  the determinant: for \<open>det J0 \<noteq> 0\<close> it returns \<open>1 / det J0\<close>, so that \<open>1 / inverse(J)\<close>, as
  the caller computes it, is the determinant and \<open>inverse(J) * det J0 = 1\<close>.
\<close>

theorem inverse_returns_reciprocal_det:
  assumes "is3x3 J0" and "det3 J0 \<noteq> 0"
  shows "\<exists>M invDet. inverse3x3 J0 = Inr (M, invDet) \<and> invDet = 1 / det3 J0
           \<and> fdiv 1 invDet = Inr (det3 J0) \<and> invDet * det3 J0 = 1"
proof -
  from assms have "inverse3x3 J0 = Inr (scaledAdjugate J0, 1 / det3 J0)"
    by (simp add: inverse3x3_char)
  moreover from assms(2) have "fdiv 1 (1 / det3 J0) = Inr (det3 J0)"
    by (simp add: fdiv_def)
  moreover from assms(2) have "1 / det3 J0 * det3 J0 = 1"
    by simp
  ultimately show ?thesis by blast
qed

theorem inverse_returns_reciprocal_det_witness:
  "is3x3 J_sample \<and> det3 J_sample \<noteq> 0
   \<and> snd (projr (inverse3x3 J_sample)) = 1 / 40 \<and> fdiv 1 (1 / 40) = Inr 40"
proof -
  have h1: "is3x3 J_sample" by (rule is3x3_sample)
  have h2: "det3 J_sample \<noteq> 0" by (simp add: det3_sample)
  show ?thesis
    using h1 h2 det3_sample inverse_returns_reciprocal_det [OF h1 h2]
    by (auto simp: fdiv_def)
qed

section \<open>The loop body\<close>

subsection \<open>The Jacobian loop computes the sums\<close>

lemma upt8: "[0..<8] = [0, 1, 2, 3, 4, 5, 6, 7]"
  by (simp add: upt_rec)

lemma nat_less3E:
  assumes "k < (3::nat)"
  obtains "k = 0" | "k = 1" | "k = 2"
  using assms by linarith

lemma nat_less8E:
  assumes "q < (8::nat)"
  obtains "q = 0" | "q = 1" | "q = 2" | "q = 3" | "q = 4" | "q = 5" | "q = 6" | "q = 7"
  using assms by linarith

lemma accumulate_node:
  "fold (\<lambda>i J. fold (\<lambda>j J. J[i := (J!i)[j := J!i!j + x!i * d!j]]) [0..<3] J) [0..<3]
        [[a, b, c], [e, f, g], [h, k, l]]
   = [[a + x!0 * d!0, b + x!0 * d!1, c + x!0 * d!2],
      [e + x!1 * d!0, f + x!1 * d!1, g + x!1 * d!2],
      [h + x!2 * d!0, k + x!2 * d!1, l + x!2 * d!2]]"
  by (simp add: upt3)

lemma jacobian_loop:
  fixes X :: "real list list" and D :: "nat \<Rightarrow> real list"
  shows
  "fold (\<lambda>a J. let dNdXi = D a in
           fold (\<lambda>i J. fold (\<lambda>j J. J[i := (J!i)[j := J!i!j + X!a!i * dNdXi!j]]) [0..<3] J) [0..<3] J)
        [0..<n] [[0, 0, 0], [0, 0, 0], [0, 0, 0]]
   = [[\<Sum>a<n. X!a!0 * D a ! 0, \<Sum>a<n. X!a!0 * D a ! 1, \<Sum>a<n. X!a!0 * D a ! 2],
      [\<Sum>a<n. X!a!1 * D a ! 0, \<Sum>a<n. X!a!1 * D a ! 1, \<Sum>a<n. X!a!1 * D a ! 2],
      [\<Sum>a<n. X!a!2 * D a ! 0, \<Sum>a<n. X!a!2 * D a ! 1, \<Sum>a<n. X!a!2 * D a ! 2]]"
proof (induction n)
  case 0
  show ?case by simp
next
  case (Suc n)
  have split: "[0..<Suc n] = [0..<n] @ [n]" by simp
  show ?case
    unfolding split fold_append o_apply Suc.IH
    by (simp only: fold_simps Let_def accumulate_node id_apply o_apply sum.lessThan_Suc)
qed

lemma J_spec_entries:
  "J_spec X xi = [[J_entry X xi 0 0, J_entry X xi 0 1, J_entry X xi 0 2],
                  [J_entry X xi 1 0, J_entry X xi 1 1, J_entry X xi 1 2],
                  [J_entry X xi 2 0, J_entry X xi 2 1, J_entry X xi 2 2]]"
  by (simp add: J_spec_def upt3)

lemma jacobian_eq_J_spec: "jacobian X xi = J_spec X xi"
  unfolding jacobian_def jacobian_loop J_spec_entries J_entry_def ..

lemma is3x3_J_spec: "is3x3 (J_spec X xi)"
  by (simp add: J_spec_def is3x3_def upt3)

lemma J_spec_nth:
  "i < 3 \<Longrightarrow> j < 3 \<Longrightarrow> J_spec X xi ! i ! j = (\<Sum>a<numNodes. X!a!i * dNdXi_a xi a ! j)"
  by (simp add: J_spec_def J_entry_def)

subsection \<open>The gradient loop computes a row times the matrix\<close>

lemma dNdX_a_explicit:
  "dNdX_a J d = map (\<lambda>i. \<Sum>j<3. d!j * J!j!i) [0..<3]"
  by (simp add: dNdX_a_def upt3 sum3)

lemma dNdX_a_nth:
  "k < 3 \<Longrightarrow> dNdX_a M d ! k = (\<Sum>j<3. d!j * M!j!k)"
  by (simp add: dNdX_a_explicit)

lemma length_dNdXi_a: "length (dNdXi_a xi a) = 3"
  by (simp add: dNdXi_a_def)

lemma length_xi_q: "length (xi_q q) = 3"
  by (simp add: xi_q_def)

lemma length_gaussPoint: "length (gaussPoint q) = 3"
  by (simp add: gaussPoint_def)

subsection \<open>The values of the loop body\<close>

lemma reciprocalOfInvDet_inverse3x3:
  assumes "is3x3 J"
  shows "reciprocalOfInvDet (map_sum id snd (inverse3x3 J)) = Inr (det3 J)"
proof (cases "det3 J = 0")
  case True
  with assms have "inverse3x3 J = Inl DivisionByZero"
    by (simp add: inverse3x3_char)
  with True show ?thesis
    by (simp add: reciprocalOfInvDet_def)
next
  case False
  with assms have "inverse3x3 J = Inr (scaledAdjugate J, 1 / det3 J)"
    by (simp add: inverse3x3_char)
  with False show ?thesis
    by (simp add: reciprocalOfInvDet_def fdiv_def)
qed

lemma referenceAt_char:
  "referenceAt X xi =
     \<lparr>detJ = Inr (det3 (J_spec X xi)),
      dNdX = (if det3 (J_spec X xi) = 0 then Inl DivisionByZero
              else Inr (map (\<lambda>a. dNdX_a (scaledAdjugate (J_spec X xi)) (dNdXi_a xi a))
                          [0..<numNodes]))\<rparr>"
proof -
  let ?J = "J_spec X xi"
  have d: "reciprocalOfInvDet (map_sum id snd (inverse3x3 ?J)) = Inr (det3 ?J)"
    using is3x3_J_spec by (rule reciprocalOfInvDet_inverse3x3)
  have g: "(case inverse3x3 ?J of
              Inl e \<Rightarrow> Inl e
            | Inr (Jinv, invDet) \<Rightarrow> Inr (map (\<lambda>a. dNdX_a Jinv (dNdXi_a xi a)) [0..<numNodes]))
           = (if det3 ?J = 0 then Inl DivisionByZero
              else Inr (map (\<lambda>a. dNdX_a (scaledAdjugate ?J) (dNdXi_a xi a)) [0..<numNodes]))"
    by (simp add: inverse3x3_char [OF is3x3_J_spec])
  show ?thesis
    unfolding referenceAt_def Let_def jacobian_eq_J_spec d g ..
qed

lemma detJ_at_char: "detJ_at X q = Inr (det3 (J_spec X (xi_q q)))"
  by (simp add: detJ_at_def testKernelDriver_def referenceAt_char Let_def)

lemma gaussRule_nth: "q < numQuadraturePoints \<Longrightarrow> gaussRule w ! q = (gaussPoint q, w)"
  by (simp add: gaussRule_def)

lemma literalRule_nth: "q < numQuadraturePoints \<Longrightarrow> literalRule w ! q = (xi_q q, w)"
  by (simp add: literalRule_def)

lemma shapeFunctionDerivatives_det:
  "fst (shapeFunctionDerivatives rule q X) = det3 (J_spec X (fst (rule ! q)))"
  by (simp add: shapeFunctionDerivatives_def Let_def)

text \<open>
  At the points of the test the gradients of the kernel are those of the loop body, as the
  test requires at lines 189-191.
\<close>

lemma shapeFunctionDerivatives_gradients:
  assumes "fst (rule ! q) = xi_q q"
  shows "snd (shapeFunctionDerivatives rule q X) = dNdX (snd (testKernelDriver X q))"
  by (simp add: shapeFunctionDerivatives_def testKernelDriver_def referenceAt_char Let_def assms
        dNdX_a_explicit)

subsection \<open>Sums over the nodes\<close>

lemma N_a_sum_explicit: "(\<Sum>a<numNodes. N_a [x, y, z] a) = 1"
  by (simp add: numNodes_def sum8 N_a_def pCoords_def) (simp add: field_simps)

lemma dNdXi_a_sum_zero:
  assumes "length xi = 3" and "j < 3"
  shows "(\<Sum>a<numNodes. dNdXi_a xi a ! j) = 0"
proof -
  from assms(1) obtain x y z where xi: "xi = [x, y, z]" by (rule vec3E)
  from assms(2) show ?thesis
  proof (cases rule: nat_less3E)
    case 1
    show ?thesis unfolding 1 xi
      by (simp add: numNodes_def sum8 dNdXi_a_def pCoords_def field_simps)
  next
    case 2
    show ?thesis unfolding 2 xi
      by (simp add: numNodes_def sum8 dNdXi_a_def pCoords_def field_simps)
  next
    case 3
    show ?thesis unfolding 3 xi
      by (simp add: numNodes_def sum8 dNdXi_a_def pCoords_def field_simps)
  qed
qed

lemma sum_exchange:
  fixes x :: "nat \<Rightarrow> real"
  shows "(\<Sum>a<n. x a * (\<Sum>j<m. d a j * c j)) = (\<Sum>j<m. (\<Sum>a<n. x a * d a j) * c j)"
proof -
  have "(\<Sum>a<n. x a * (\<Sum>j<m. d a j * c j)) = (\<Sum>a<n. \<Sum>j<m. x a * d a j * c j)"
    by (simp add: sum_distrib_left mult.assoc)
  also have "\<dots> = (\<Sum>j<m. \<Sum>a<n. x a * d a j * c j)"
    by (rule sum.swap)
  also have "\<dots> = (\<Sum>j<m. (\<Sum>a<n. x a * d a j) * c j)"
    by (simp add: sum_distrib_right)
  finally show ?thesis .
qed

lemma outerProductSum_is_product:
  "outerProductSum X (map (\<lambda>a. dNdX_a M (dNdXi_a xi a)) [0..<numNodes]) = mat_mul (J_spec X xi) M"
proof -
  have "(\<Sum>a<numNodes. X!a!i * map (\<lambda>a. dNdX_a M (dNdXi_a xi a)) [0..<numNodes] ! a ! k)
          = (\<Sum>j<3. J_spec X xi ! i ! j * M!j!k)" if "i < 3" and "k < 3" for i k
  proof -
    have "(\<Sum>a<numNodes. X!a!i * map (\<lambda>a. dNdX_a M (dNdXi_a xi a)) [0..<numNodes] ! a ! k)
            = (\<Sum>a<numNodes. X!a!i * (\<Sum>j<3. dNdXi_a xi a ! j * M!j!k))"
      using that by (intro sum.cong refl) (simp add: dNdX_a_nth)
    also have "\<dots> = (\<Sum>j<3. (\<Sum>a<numNodes. X!a!i * dNdXi_a xi a ! j) * M!j!k)"
      by (rule sum_exchange)
    also have "\<dots> = (\<Sum>j<3. J_spec X xi ! i ! j * M!j!k)"
      using that by (intro sum.cong refl) (simp add: J_spec_nth)
    finally show ?thesis .
  qed
  then show ?thesis
    by (simp add: outerProductSum_def mat_mul_def)
qed

lemma gradientSum_table:
  assumes "length xi = 3"
  shows "gradientSum (map (\<lambda>a. dNdX_a M (dNdXi_a xi a)) [0..<numNodes]) = [0, 0, 0]"
proof -
  have "(\<Sum>a<numNodes. map (\<lambda>a. dNdX_a M (dNdXi_a xi a)) [0..<numNodes] ! a ! k) = 0"
    if "k < 3" for k
  proof -
    have "(\<Sum>a<numNodes. map (\<lambda>a. dNdX_a M (dNdXi_a xi a)) [0..<numNodes] ! a ! k)
            = (\<Sum>a<numNodes. 1 * (\<Sum>j<3. dNdXi_a xi a ! j * M!j!k))"
      using that by (intro sum.cong refl) (simp add: dNdX_a_nth)
    also have "\<dots> = (\<Sum>j<3. (\<Sum>a<numNodes. 1 * dNdXi_a xi a ! j) * M!j!k)"
      by (rule sum_exchange)
    also have "\<dots> = 0"
      by (rule sum.neutral) (simp add: dNdXi_a_sum_zero [OF assms])
    finally show ?thesis .
  qed
  then show ?thesis
    by (simp add: gradientSum_def upt3)
qed

subsection \<open>The cube\<close>

lemma cubeCoords_transposes_pCoords:
  "cubeCoords = map (\<lambda>a. map (\<lambda>i. pCoords!i!a) [0..<3]) [0..<numNodes]"
  by (simp add: cubeCoords_def numNodes_def upt8 upt3 pCoords_def)

lemma is8x3_cubeCoords: "is8x3 cubeCoords"
  by (simp add: is8x3_def cubeCoords_def numNodes_def)

lemma J_spec_cube_explicit: "J_spec cubeCoords [x, y, z] = identity3"
  by (simp add: J_spec_def J_entry_def cubeCoords_def numNodes_def sum8 upt3 dNdXi_a_def pCoords_def
        identity3_def field_simps)

lemma J_spec_cube: "length xi = 3 \<Longrightarrow> J_spec cubeCoords xi = identity3"
  by (erule vec3E) (simp add: J_spec_cube_explicit)

lemma det3_identity3: "det3 identity3 = 1"
  by (simp add: identity3_def det3_explicit)

lemma scaledAdjugate_identity3: "scaledAdjugate identity3 = identity3"
  by (simp add: scaledAdjugate_def det3_identity3) (simp add: identity3_def adjugate_explicit)

lemma dNdX_a_identity3: "length d = 3 \<Longrightarrow> dNdX_a identity3 d = d"
  by (erule vec3E) (simp add: dNdX_a_explicit identity3_def upt3 sum3)

lemma referenceAt_cube:
  assumes "length xi = 3"
  shows "referenceAt cubeCoords xi =
           \<lparr>detJ = Inr 1, dNdX = Inr (map (dNdXi_a xi) [0..<numNodes])\<rparr>"
  by (simp add: referenceAt_char J_spec_cube [OF assms] det3_identity3 scaledAdjugate_identity3
        dNdX_a_identity3 length_dNdXi_a)

subsection \<open>Flipping one axis\<close>

lemma flipAxis_explicit:
  "flipAxis 0 X = [X!1, X!0, X!3, X!2, X!5, X!4, X!7, X!6]"
  "flipAxis 1 X = [X!2, X!3, X!0, X!1, X!6, X!7, X!4, X!5]"
  "flipAxis 2 X = [X!4, X!5, X!6, X!7, X!0, X!1, X!2, X!3]"
  by (simp_all add: flipAxis_def flipCorner_def numNodes_def upt8 pCoords_def eval_nat_numeral)

lemma mirror_explicit:
  "mirror 0 [x, y, z] = [- x, y, z]"
  "mirror 1 [x, y, z] = [x, - y, z]"
  "mirror 2 [x, y, z] = [x, y, - z]"
  by (simp_all add: mirror_def)

lemma flip0_entry:
  "J_entry (flipAxis 0 X) [x, y, z] i 0 = - J_entry X [- x, y, z] i 0"
  "J_entry (flipAxis 0 X) [x, y, z] i 1 = J_entry X [- x, y, z] i 1"
  "J_entry (flipAxis 0 X) [x, y, z] i 2 = J_entry X [- x, y, z] i 2"
  unfolding J_entry_def flipAxis_explicit
  by (simp_all add: numNodes_def sum8 dNdXi_a_def pCoords_def field_simps)

lemma flip1_entry:
  "J_entry (flipAxis 1 X) [x, y, z] i 0 = J_entry X [x, - y, z] i 0"
  "J_entry (flipAxis 1 X) [x, y, z] i 1 = - J_entry X [x, - y, z] i 1"
  "J_entry (flipAxis 1 X) [x, y, z] i 2 = J_entry X [x, - y, z] i 2"
  unfolding J_entry_def flipAxis_explicit
  by (simp_all add: numNodes_def sum8 dNdXi_a_def pCoords_def field_simps)

lemma flip2_entry:
  "J_entry (flipAxis 2 X) [x, y, z] i 0 = J_entry X [x, y, - z] i 0"
  "J_entry (flipAxis 2 X) [x, y, z] i 1 = J_entry X [x, y, - z] i 1"
  "J_entry (flipAxis 2 X) [x, y, z] i 2 = - J_entry X [x, y, - z] i 2"
  unfolding J_entry_def flipAxis_explicit
  by (simp_all add: numNodes_def sum8 dNdXi_a_def pCoords_def field_simps)

lemma det3_flipAxis:
  assumes "length xi = 3" and "k < 3"
  shows "det3 (J_spec (flipAxis k X) xi) = - det3 (J_spec X (mirror k xi))"
proof -
  from assms(1) obtain x y z where xi: "xi = [x, y, z]" by (rule vec3E)
  from assms(2) show ?thesis
  proof (cases rule: nat_less3E)
    case 1
    show ?thesis
      unfolding 1 xi mirror_explicit J_spec_entries flip0_entry det3_explicit
      by (simp add: algebra_simps)
  next
    case 2
    show ?thesis
      unfolding 2 xi mirror_explicit J_spec_entries flip1_entry det3_explicit
      by (simp add: algebra_simps)
  next
    case 3
    show ?thesis
      unfolding 3 xi mirror_explicit J_spec_entries flip2_entry det3_explicit
      by (simp add: algebra_simps)
  qed
qed

lemma xi_q_flipCorner:
  assumes "k < 3" and "q < numQuadraturePoints"
  shows "xi_q (flipCorner k q) = mirror k (xi_q q)"
proof -
  from assms(2) have q: "q < 8" by (simp add: numQuadraturePoints_def)
  from assms(1) q show ?thesis
    by (elim nat_less3E nat_less8E) (simp_all add: xi_q_def flipCorner_def mirror_def pCoords_def)
qed

lemma flipCorner_less:
  assumes "k < 3" and "q < numQuadraturePoints"
  shows "flipCorner k q < numQuadraturePoints"
proof -
  from assms(2) have q: "q < 8" by (simp add: numQuadraturePoints_def)
  from assms(1) q show ?thesis
    by (elim nat_less3E nat_less8E) (simp_all add: flipCorner_def pCoords_def numQuadraturePoints_def)
qed

lemma detJ_at_flipAxis:
  assumes "k < 3" and "q < numQuadraturePoints"
  shows "detJ_at (flipAxis k X) q = map_sum id uminus (detJ_at X (flipCorner k q))"
  by (simp add: detJ_at_char xi_q_flipCorner [OF assms] det3_flipAxis [OF length_xi_q assms(1)])

subsection \<open>The sample elements\<close>

lemma quadratureFactor_bounds: "1 / 2 < quadratureFactor" "quadratureFactor < 1"
  by (simp_all add: quadratureFactor_def)

lemma xi_q_0: "xi_q 0 = [- quadratureFactor, - quadratureFactor, - quadratureFactor]"
  by (simp add: xi_q_def pCoords_def)

lemma is8x3_wedgeCoords: "is8x3 wedgeCoords"
  by (simp add: is8x3_def wedgeCoords_def numNodes_def)

lemma det3_wedge: "det3 (J_spec wedgeCoords [x, y, z]) = 4 * (2 + x)"
  unfolding J_spec_entries J_entry_def det3_explicit
  by (simp add: wedgeCoords_def numNodes_def sum8 dNdXi_a_def pCoords_def field_simps)

lemma det3_wedge_flipped: "det3 (J_spec (flipAxis 0 wedgeCoords) [x, y, z]) = - (4 * (2 - x))"
  by (simp add: det3_flipAxis mirror_explicit det3_wedge)

lemma det3_twisted: "det3 (J_spec twistedCoords [x, y, z]) = 1 + 2 * x"
  unfolding J_spec_entries J_entry_def det3_explicit
  by (simp add: twistedCoords_def numNodes_def sum8 dNdXi_a_def pCoords_def field_simps)

lemma det3_twisted_flipped: "det3 (J_spec (flipAxis 0 twistedCoords) [x, y, z]) = - (1 - 2 * x)"
  by (simp add: det3_flipAxis mirror_explicit det3_twisted)

lemma is8x3_xCoords: "is8x3 xCoords"
  by (simp add: is8x3_def xCoords_def numNodes_def)

text \<open>
  The element of the test: its Jacobian in closed form, and its determinant at quadrature
  point 0 before and after the flip on axis 0, to four decimal places.
\<close>

lemma J_spec_xCoords:
  "J_spec xCoords [x, y, z] =
     [[(95 - y + z + y * z) / 80, (- 1 - x + 5 * z + x * z) / 80, (- 3 + x + 5 * y + x * y) / 80],
      [(1 - y - 5 * z + y * z) / 80, (95 - x + z + x * z) / 80, (- 1 - 5 * x + y + x * y) / 80],
      [(- 4 - 4 * y + 2 * z - 2 * y * z) / 80, (- 4 * x + 2 * z - 2 * x * z) / 80,
       (94 + 2 * x + 2 * y - 2 * x * y) / 80]]"
  unfolding J_spec_entries J_entry_def
  by (simp add: xCoords_def numNodes_def sum8 dNdXi_a_def pCoords_def field_simps)

lemma det3_xCoords_0:
  "16141 / 10000 < det3 (J_spec xCoords (xi_q 0))"
  "det3 (J_spec xCoords (xi_q 0)) < 16142 / 10000"
  by (simp_all add: xi_q_0 J_spec_xCoords det3_explicit quadratureFactor_def)

lemma det3_xCoords_flipped_0:
  "- (16465 / 10000) < det3 (J_spec (flipAxis 0 xCoords) (xi_q 0))"
  "det3 (J_spec (flipAxis 0 xCoords) (xi_q 0)) < - (16464 / 10000)"
  by (simp_all add: xi_q_0 det3_flipAxis mirror_explicit J_spec_xCoords det3_explicit
        quadratureFactor_def)

lemma detJ_at_xCoords_0: "detJ_at xCoords 0 = Inr (det3 (J_spec xCoords (xi_q 0)))"
  by (rule detJ_at_char)

lemma detJ_at_xCoords_flipped_0:
  "detJ_at (flipAxis 0 xCoords) 0 = Inr (det3 (J_spec (flipAxis 0 xCoords) (xi_q 0)))"
  by (rule detJ_at_char)

lemma is8x3_flatCoords: "is8x3 flatCoords"
  by (simp add: is8x3_def flatCoords_def numNodes_def)

lemma det3_flat: "det3 (J_spec flatCoords [x, y, z]) = 0"
  unfolding J_spec_entries J_entry_def det3_explicit
  by (simp add: flatCoords_def numNodes_def sum8 dNdXi_a_def pCoords_def)

lemma sqrt3_gt_1: "1 < sqrt 3"
  by simp

lemma gaussPoint_0: "gaussPoint 0 = [- (1 / sqrt 3), - (1 / sqrt 3), - (1 / sqrt 3)]"
  by (simp add: gaussPoint_def upt3 pCoords_def)

lemma det3_wedge_gauss_0: "det3 (J_spec wedgeCoords (gaussPoint 0)) = 8 - 4 / sqrt 3"
  by (simp add: gaussPoint_0 det3_wedge)

lemma det3_wedge_gauss_0_pos: "0 < 8 - 4 / sqrt 3"
proof -
  from sqrt3_gt_1 have "4 / sqrt 3 < 4"
    by (simp add: field_simps)
  then show ?thesis by simp
qed

lemma numQuadraturePoints_pos: "0 < numQuadraturePoints"
  by (simp add: numQuadraturePoints_def)

lemma det3_wedge_0: "det3 (jacobian wedgeCoords (xi_q 0)) \<noteq> 0"
  using quadratureFactor_bounds by (simp add: jacobian_eq_J_spec xi_q_0 det3_wedge)

lemma positiveAtAllPoints_wedge: "positiveAtAllPoints wedgeCoords"
  using quadratureFactor_bounds
  by (simp add: positiveAtAllPoints_def numQuadraturePoints_def upt8 detJ_at_char xi_q_def pCoords_def
        det3_wedge)

section \<open>The determinant\<close>

text \<open>
  C1. For every element (eight node coordinate vectors) and every quadrature point \<open>q\<close>, the
  per-point determinant output is the cofactor-expansion determinant of the matrix
  \<open>J[i][j] = sum_a coord[a][i] * dNdXi[a][j]\<close> built from the trilinear reference derivatives
  at \<open>q\<close>; it is the raw determinant, not multiplied by the quadrature weight.

  The output is written by the kernel, whose determinant is the first component of
  \<open>shapeFunctionDerivatives\<close>: for every rule, whatever its weights, it is that determinant,
  and for the Gauss rule with a weight other than 1 it differs from the weighted
  determinant unless the determinant is zero. The test requires the output to equal its own
  \<^verbatim>\<open>detJ = 1/inverse( J )\<close>, and this value too is that determinant for every element, also
  when the determinant is zero; at the points of the test the two agree.
\<close>

theorem detJ_is_cofactor_determinant:
  assumes "is8x3 X" and "q < numQuadraturePoints"
  shows "fst (shapeFunctionDerivatives rule q X) = det3 (J_spec X (fst (rule ! q)))
       \<and> fst (shapeFunctionDerivatives (gaussRule w) q X) = det3 (J_spec X (gaussPoint q))
       \<and> (w \<noteq> 1 \<and> det3 (J_spec X (gaussPoint q)) \<noteq> 0 \<longrightarrow>
            fst (shapeFunctionDerivatives (gaussRule w) q X) \<noteq> w * det3 (J_spec X (gaussPoint q)))
       \<and> detJ_at X q = Inr (det3 (J_spec X (xi_q q)))
       \<and> (fst (rule ! q) = xi_q q \<longrightarrow>
            detJ_at X q = Inr (fst (shapeFunctionDerivatives rule q X)))
       \<and> jacobian X (xi_q q) = J_spec X (xi_q q)
       \<and> (\<forall>i<3. \<forall>j<3. J_spec X xi ! i ! j = (\<Sum>a<numNodes. X!a!i * dNdXi_a xi a ! j))"
proof -
  let ?J = "J_spec X (xi_q q)"
  have kernel: "fst (shapeFunctionDerivatives r q X) = det3 (J_spec X (fst (r ! q)))" for r
    by (simp add: shapeFunctionDerivatives_def Let_def)
  have gauss: "fst (shapeFunctionDerivatives (gaussRule w) q X) = det3 (J_spec X (gaussPoint q))"
    unfolding kernel using assms(2) by (simp add: gaussRule_nth)
  have unweighted: "fst (shapeFunctionDerivatives (gaussRule w) q X) \<noteq> w * det3 (J_spec X (gaussPoint q))"
    if "w \<noteq> 1" and "det3 (J_spec X (gaussPoint q)) \<noteq> 0"
    unfolding gauss using that by simp
  have loop: "jacobian X (xi_q q) = ?J"
    by (rule jacobian_eq_J_spec)
  have "detJ (referenceAt X (xi_q q)) = reciprocalOfInvDet (map_sum id snd (inverse3x3 ?J))"
    unfolding referenceAt_def Let_def loop by simp
  also have "\<dots> = Inr (det3 ?J)"
    using is3x3_J_spec by (rule reciprocalOfInvDet_inverse3x3)
  finally have reference: "detJ_at X q = Inr (det3 ?J)"
    by (simp add: detJ_at_def testKernelDriver_def Let_def)
  have agree: "detJ_at X q = Inr (fst (shapeFunctionDerivatives rule q X))"
    if "fst (rule ! q) = xi_q q"
    unfolding kernel reference that ..
  have entries: "\<forall>i<3. \<forall>j<3. J_spec X xi ! i ! j = (\<Sum>a<numNodes. X!a!i * dNdXi_a xi a ! j)"
    by (simp add: J_spec_nth)
  from kernel gauss unweighted reference agree loop entries show ?thesis
    by blast
qed

theorem detJ_is_cofactor_determinant_witness:
  "is8x3 wedgeCoords \<and> is8x3 flatCoords \<and> is8x3 xCoords \<and> 0 < numQuadraturePoints
   \<and> fst (shapeFunctionDerivatives (gaussRule 2) 0 wedgeCoords) = 8 - 4 / sqrt 3
   \<and> (2::real) \<noteq> 1 \<and> det3 (J_spec wedgeCoords (gaussPoint 0)) \<noteq> 0
   \<and> fst (shapeFunctionDerivatives (gaussRule 2) 0 wedgeCoords)
         \<noteq> 2 * det3 (J_spec wedgeCoords (gaussPoint 0))
   \<and> fst (literalRule 1 ! 0) = xi_q 0
   \<and> detJ_at wedgeCoords 0 = Inr (fst (shapeFunctionDerivatives (literalRule 1) 0 wedgeCoords))
   \<and> detJ_at wedgeCoords 0 = Inr (8 - 4 * quadratureFactor)
   \<and> det3 (J_spec flatCoords (xi_q 0)) = 0
   \<and> detJ_at flatCoords 0 = Inr 0
   \<and> fst (shapeFunctionDerivatives (gaussRule 1) 0 flatCoords) = 0
   \<and> detJ_at xCoords 0 = Inr (det3 (J_spec xCoords (xi_q 0)))
   \<and> 16141 / 10000 < det3 (J_spec xCoords (xi_q 0))
   \<and> det3 (J_spec xCoords (xi_q 0)) < 16142 / 10000"
proof -
  note pos = numQuadraturePoints_pos
  have two: "(2::real) \<noteq> 1" by simp
  have n: "det3 (J_spec wedgeCoords (gaussPoint 0)) \<noteq> 0"
    using det3_wedge_gauss_0_pos by (simp add: det3_wedge_gauss_0)
  have lit: "fst (literalRule 1 ! 0) = xi_q 0"
    by (simp add: literalRule_nth [OF pos])
  have flat: "det3 (J_spec flatCoords (xi_q 0)) = 0"
    by (simp add: xi_q_0 det3_flat)
  have flat_gauss: "det3 (J_spec flatCoords (gaussPoint 0)) = 0"
    by (simp add: gaussPoint_0 det3_flat)
  note wedge = detJ_is_cofactor_determinant [OF is8x3_wedgeCoords pos, of "literalRule 1" 2 "xi_q 0"]
  note flatc = detJ_is_cofactor_determinant [OF is8x3_flatCoords pos, of "gaussRule 1" 1 "xi_q 0"]
  note fixture = detJ_is_cofactor_determinant [OF is8x3_xCoords pos, of "gaussRule 1" 1 "xi_q 0"]
  from wedge have w1: "fst (shapeFunctionDerivatives (gaussRule 2) 0 wedgeCoords) = 8 - 4 / sqrt 3"
    by (simp add: det3_wedge_gauss_0)
  from wedge two n
  have w2: "fst (shapeFunctionDerivatives (gaussRule 2) 0 wedgeCoords)
              \<noteq> 2 * det3 (J_spec wedgeCoords (gaussPoint 0))"
    by blast
  from wedge lit
  have w3: "detJ_at wedgeCoords 0 = Inr (fst (shapeFunctionDerivatives (literalRule 1) 0 wedgeCoords))"
    by blast
  from wedge have w4: "detJ_at wedgeCoords 0 = Inr (8 - 4 * quadratureFactor)"
    by (simp add: xi_q_0 det3_wedge)
  from flatc have f1: "detJ_at flatCoords 0 = Inr 0"
    by (simp add: flat)
  from flatc have f2: "fst (shapeFunctionDerivatives (gaussRule 1) 0 flatCoords) = 0"
    by (simp add: flat_gauss)
  from fixture have x: "detJ_at xCoords 0 = Inr (det3 (J_spec xCoords (xi_q 0)))"
    by blast
  from is8x3_wedgeCoords is8x3_flatCoords is8x3_xCoords pos w1 two n w2 lit w3 w4 flat f1 f2 x
    det3_xCoords_0
  show ?thesis
    by (intro conjI)
qed

text \<open>
  C8, as stated: for every element, listing its nodes in the enumeration flipped on one axis
  negates the determinant computed at every quadrature point. This fails.
  \<^item> For the wedge, whose determinant is positive at all eight quadrature points, the
    determinant at point 0 is \<open>8 - 4 g\<close> before the flip on axis 0 and \<open>- 8 - 4 g\<close> after it
    (\<open>g\<close> the quadrature factor), which is not the negative of the former.
  \<^item> For the element of the test it lies between 1.6141 and 1.6142 before the flip and
    below -1.6464 after it.
  \<^item> For the twisted element it is negative before the flip and negative after it, so
    not even its sign changes.
\<close>

theorem flip_negates_at_same_point_counterexample:
  "detJ_at wedgeCoords 0 = Inr (8 - 4 * quadratureFactor)
   \<and> detJ_at (flipAxis 0 wedgeCoords) 0 = Inr (- 8 - 4 * quadratureFactor)
   \<and> - 8 - 4 * quadratureFactor \<noteq> - (8 - 4 * quadratureFactor)
   \<and> detJ_at xCoords 0 = Inr (det3 (J_spec xCoords (xi_q 0)))
   \<and> detJ_at (flipAxis 0 xCoords) 0 = Inr (det3 (J_spec (flipAxis 0 xCoords) (xi_q 0)))
   \<and> det3 (J_spec xCoords (xi_q 0)) < 16142 / 10000
   \<and> det3 (J_spec (flipAxis 0 xCoords) (xi_q 0)) < - (16464 / 10000)
   \<and> detJ_at twistedCoords 0 = Inr (1 - 2 * quadratureFactor)
   \<and> detJ_at (flipAxis 0 twistedCoords) 0 = Inr (- 1 - 2 * quadratureFactor)
   \<and> 1 - 2 * quadratureFactor < 0 \<and> - 1 - 2 * quadratureFactor < 0"
proof -
  have "detJ_at wedgeCoords 0 = Inr (8 - 4 * quadratureFactor)"
    and "detJ_at (flipAxis 0 wedgeCoords) 0 = Inr (- 8 - 4 * quadratureFactor)"
    and "- 8 - 4 * quadratureFactor \<noteq> - (8 - 4 * quadratureFactor)"
    using quadratureFactor_bounds
    by (simp_all add: detJ_at_char xi_q_0 det3_wedge det3_wedge_flipped)
  moreover have "detJ_at twistedCoords 0 = Inr (1 - 2 * quadratureFactor)"
    and "detJ_at (flipAxis 0 twistedCoords) 0 = Inr (- 1 - 2 * quadratureFactor)"
    and "1 - 2 * quadratureFactor < 0" and "- 1 - 2 * quadratureFactor < 0"
    using quadratureFactor_bounds
    by (simp_all add: detJ_at_char xi_q_0 det3_twisted det3_twisted_flipped)
  ultimately show ?thesis
    using detJ_at_xCoords_0 detJ_at_xCoords_flipped_0 det3_xCoords_0(2) det3_xCoords_flipped_0(2)
    by (intro conjI)
qed

text \<open>
  C8, amended. For every element, every axis \<open>k\<close> and every quadrature point \<open>q\<close>, the
  determinant computed for the flipped element at \<open>q\<close> is the negative of the determinant
  computed for the original element at the quadrature point mirrored on axis \<open>k\<close>
  (\<open>flipCorner k q\<close>). Hence, if the determinant of the
  original element is positive at all eight quadrature points, that of the flipped element is
  negative at all eight.
\<close>

theorem flip_negates_at_mirrored_point:
  assumes "is8x3 X" and "k < 3" and "q < numQuadraturePoints"
  shows "detJ_at (flipAxis k X) q = map_sum id uminus (detJ_at X (flipCorner k q))
       \<and> (positiveAtAllPoints X \<longrightarrow> negativeAtAllPoints (flipAxis k X))"
proof
  show "detJ_at (flipAxis k X) q = map_sum id uminus (detJ_at X (flipCorner k q))"
    using assms(2,3) by (rule detJ_at_flipAxis)
  show "positiveAtAllPoints X \<longrightarrow> negativeAtAllPoints (flipAxis k X)"
  proof
    assume pos: "positiveAtAllPoints X"
    have "case detJ_at (flipAxis k X) p of Inl e \<Rightarrow> False | Inr d \<Rightarrow> d < 0"
      if p: "p < numQuadraturePoints" for p
    proof -
      from assms(2) p have "flipCorner k p < numQuadraturePoints" by (rule flipCorner_less)
      with pos have "case detJ_at X (flipCorner k p) of Inl e \<Rightarrow> False | Inr d \<Rightarrow> 0 < d"
        by (simp add: positiveAtAllPoints_def list_all_iff)
      then show ?thesis
        by (simp add: detJ_at_flipAxis [OF assms(2) p] split: sum.splits)
    qed
    then show "negativeAtAllPoints (flipAxis k X)"
      by (simp add: negativeAtAllPoints_def list_all_iff)
  qed
qed

theorem flip_negates_at_mirrored_point_witness:
  "is8x3 wedgeCoords \<and> (0::nat) < 3 \<and> 0 < numQuadraturePoints
   \<and> flipCorner 0 0 = 1
   \<and> detJ_at wedgeCoords (flipCorner 0 0) = Inr (8 + 4 * quadratureFactor)
   \<and> detJ_at (flipAxis 0 wedgeCoords) 0 = Inr (- (8 + 4 * quadratureFactor))
   \<and> positiveAtAllPoints wedgeCoords \<and> negativeAtAllPoints (flipAxis 0 wedgeCoords)"
proof -
  have h2: "(0::nat) < 3" by simp
  have f: "flipCorner 0 0 = 1" by (simp add: flipCorner_def pCoords_def)
  have v: "detJ_at wedgeCoords (flipCorner 0 0) = Inr (8 + 4 * quadratureFactor)"
    using quadratureFactor_bounds by (simp add: f detJ_at_char xi_q_def pCoords_def det3_wedge)
  from flip_negates_at_mirrored_point [OF is8x3_wedgeCoords h2 numQuadraturePoints_pos]
  have "detJ_at (flipAxis 0 wedgeCoords) 0 = Inr (- (8 + 4 * quadratureFactor))"
    and "negativeAtAllPoints (flipAxis 0 wedgeCoords)"
    unfolding v using positiveAtAllPoints_wedge by simp_all
  with is8x3_wedgeCoords h2 numQuadraturePoints_pos f v positiveAtAllPoints_wedge show ?thesis
    by (intro conjI)
qed

section \<open>Shape values and gradients\<close>

text \<open>
  C4. For every reference coordinate \<open>xi\<close>, so in particular at every quadrature point of every
  element, the eight trilinear shape values
  \<open>N_a(xi) = 1/8 (1 + s0_a xi0) (1 + s1_a xi1) (1 + s2_a xi2)\<close>, with the corner signs of
  \<^verbatim>\<open>pCoords\<close>, sum to exactly 1. The second equation is the sum of the list of shape values
  the loop body produces, the third the same at a quadrature point of an element \<open>X\<close>.
\<close>

theorem shape_values_sum_to_one:
  assumes "length xi = 3"
  shows "(\<Sum>a<numNodes. N_a xi a) = 1 \<and> sum_list (N_q xi) = 1
       \<and> sum_list (fst (testKernelDriver X q)) = 1"
proof -
  have s: "(\<Sum>a<numNodes. N_a v a) = 1" if "length v = 3" for v
  proof -
    from that obtain x y z where v: "v = [x, y, z]" by (rule vec3E)
    show ?thesis unfolding v by (rule N_a_sum_explicit)
  qed
  have l: "sum_list (N_q v) = (\<Sum>a<numNodes. N_a v a)" for v
    by (simp add: N_q_def interv_sum_list_conv_sum_set_nat atLeast0LessThan)
  show ?thesis
    by (simp add: testKernelDriver_def Let_def l s assms length_xi_q)
qed

theorem shape_values_sum_to_one_witness:
  "length [1/2, 0, - 1 :: real] = 3
   \<and> N_q [1/2, 0, - 1] = [1/8, 3/8, 1/8, 3/8, 0, 0, 0, 0]
   \<and> (\<Sum>a<numNodes. N_a [1/2, 0, - 1] a) = 1
   \<and> sum_list (N_q [1/2, 0, - 1]) = 1
   \<and> sum_list (fst (testKernelDriver xCoords 0)) = 1"
proof -
  have l: "length [1/2, 0, - 1 :: real] = 3" by simp
  have v: "N_q [1/2, 0, - 1] = [1/8, 3/8, 1/8, 3/8, 0, 0, 0, 0]"
    by (simp add: N_q_def numNodes_def upt8 N_a_def pCoords_def)
  from l v shape_values_sum_to_one [OF l, of xCoords 0] show ?thesis
    by (intro conjI) simp_all
qed

text \<open>
  C3. For every matrix \<open>Jinv\<close> (the inverse Jacobian) and every 8x3 matrix \<open>dNdXi\<close> of reference
  derivatives, the gradient loop yields, for every node \<open>a\<close> in 0..7 and every component \<open>i\<close>
  in 0..2, \<open>dNdX[a][i] = sum_j dNdXi[a][j] * Jinv[j][i]\<close>: the row of reference derivatives
  times the inverse Jacobian.
\<close>

theorem physical_gradient_is_right_multiplication:
  assumes "is3x3 Jinv" and "is8x3 dNdXi" and "a < numNodes" and "i < 3"
  shows "length (dNdX_a Jinv (dNdXi ! a)) = 3
       \<and> dNdX_a Jinv (dNdXi ! a) ! i = (\<Sum>j<3. dNdXi ! a ! j * Jinv ! j ! i)"
proof -
  have unrolled: "dNdX_a Jinv (dNdXi ! a) = map (\<lambda>i. \<Sum>j<3. dNdXi ! a ! j * Jinv ! j ! i) [0..<3]"
    by (rule dNdX_a_explicit)
  have "length (dNdX_a Jinv (dNdXi ! a)) = 3"
    unfolding unrolled by simp
  moreover from assms(4) have "dNdX_a Jinv (dNdXi ! a) ! i = (\<Sum>j<3. dNdXi ! a ! j * Jinv ! j ! i)"
    unfolding unrolled by simp
  ultimately show ?thesis by simp
qed

theorem physical_gradient_is_right_multiplication_witness:
  "is3x3 J_sample \<and> is8x3 cubeCoords \<and> 1 < numNodes \<and> (0::nat) < 3
   \<and> dNdX_a J_sample (cubeCoords ! 1) = [1, - 4, - 5]
   \<and> dNdX_a J_sample (cubeCoords ! 1) ! 0 = (\<Sum>j<3. cubeCoords ! 1 ! j * J_sample ! j ! 0)"
proof -
  have h3: "1 < numNodes" by (simp add: numNodes_def)
  have h4: "(0::nat) < 3" by simp
  have v: "dNdX_a J_sample (cubeCoords ! 1) = [1, - 4, - 5]"
    by (simp add: dNdX_a_explicit J_sample_def cubeCoords_def upt3 sum3)
  from physical_gradient_is_right_multiplication [OF is3x3_sample is8x3_cubeCoords h3 h4]
  have "dNdX_a J_sample (cubeCoords ! 1) ! 0 = (\<Sum>j<3. cubeCoords ! 1 ! j * J_sample ! j ! 0)"
    by simp
  with is3x3_sample is8x3_cubeCoords h3 h4 v show ?thesis
    by (intro conjI)
qed

text \<open>
  C5. For every element whose Jacobian at a quadrature point has a nonzero determinant, the
  loop body produces its values there, and the sum over the eight nodes of the outer products
  \<open>coord[a] (x) dNdX[a]\<close> of node coordinates and physical gradients is the 3x3 identity.
\<close>

theorem isoparametric_consistency:
  assumes "is8x3 X" and "q < numQuadraturePoints" and "det3 (jacobian X (xi_q q)) \<noteq> 0"
  shows "\<exists>G. dNdX (snd (testKernelDriver X q)) = Inr G \<and> outerProductSum X G = identity3"
proof -
  let ?J = "J_spec X (xi_q q)"
  let ?G = "map (\<lambda>a. dNdX_a (scaledAdjugate ?J) (dNdXi_a (xi_q q) a)) [0..<numNodes]"
  from assms(3) have det: "det3 ?J \<noteq> 0"
    by (simp add: jacobian_eq_J_spec)
  then have "dNdX (snd (testKernelDriver X q)) = Inr ?G"
    by (simp add: testKernelDriver_def Let_def referenceAt_char)
  moreover have "outerProductSum X ?G = mat_mul ?J (scaledAdjugate ?J)"
    by (rule outerProductSum_is_product)
  moreover from is3x3_J_spec det have "mat_mul ?J (scaledAdjugate ?J) = identity3"
    by (rule scaledAdjugate_is_inverse(2))
  ultimately show ?thesis by simp
qed

theorem isoparametric_consistency_witness:
  "is8x3 wedgeCoords \<and> 0 < numQuadraturePoints \<and> det3 (jacobian wedgeCoords (xi_q 0)) \<noteq> 0
   \<and> (\<exists>G. dNdX (snd (testKernelDriver wedgeCoords 0)) = Inr G
           \<and> outerProductSum wedgeCoords G = identity3)"
  using is8x3_wedgeCoords numQuadraturePoints_pos det3_wedge_0
    isoparametric_consistency [OF is8x3_wedgeCoords numQuadraturePoints_pos det3_wedge_0]
  by (intro conjI)

text \<open>
  C6. For every element whose Jacobian at a quadrature point has a nonzero determinant, the
  eight physical gradient vectors \<open>dNdX[a]\<close> computed there sum to the zero vector; and for
  every reference coordinate the eight reference-derivative vectors \<open>dNdXi[a]\<close> sum to exactly
  zero.
\<close>

theorem gradients_sum_to_zero:
  assumes "is8x3 X" and "q < numQuadraturePoints" and "det3 (jacobian X (xi_q q)) \<noteq> 0"
    and "length xi = 3"
  shows "(\<exists>G. dNdX (snd (testKernelDriver X q)) = Inr G \<and> gradientSum G = [0, 0, 0])
       \<and> gradientSum (map (dNdXi_a xi) [0..<numNodes]) = [0, 0, 0]"
proof -
  have "\<exists>G. dNdX (snd (testKernelDriver X q)) = Inr G \<and> gradientSum G = [0, 0, 0]"
    using assms(3)
    by (simp add: testKernelDriver_def Let_def referenceAt_char jacobian_eq_J_spec
          gradientSum_table [OF length_xi_q])
  moreover have "gradientSum (map (dNdXi_a xi) [0..<numNodes]) = [0, 0, 0]"
    by (simp add: gradientSum_def upt3 dNdXi_a_sum_zero [OF assms(4)])
  ultimately show ?thesis by simp
qed

theorem gradients_sum_to_zero_witness:
  "is8x3 wedgeCoords \<and> 0 < numQuadraturePoints \<and> det3 (jacobian wedgeCoords (xi_q 0)) \<noteq> 0
   \<and> length [1/2, 0, - 1 :: real] = 3
   \<and> (\<exists>G. dNdX (snd (testKernelDriver wedgeCoords 0)) = Inr G \<and> gradientSum G = [0, 0, 0])
   \<and> gradientSum (map (dNdXi_a [1/2, 0, - 1]) [0..<numNodes]) = [0, 0, 0]"
proof -
  have l: "length [1/2, 0, - 1 :: real] = 3" by simp
  from gradients_sum_to_zero [OF is8x3_wedgeCoords numQuadraturePoints_pos det3_wedge_0 l]
  have "\<exists>G. dNdX (snd (testKernelDriver wedgeCoords 0)) = Inr G \<and> gradientSum G = [0, 0, 0]"
    and "gradientSum (map (dNdXi_a [1/2, 0, - 1]) [0..<numNodes]) = [0, 0, 0]"
    by simp_all
  with is8x3_wedgeCoords numQuadraturePoints_pos det3_wedge_0 l show ?thesis
    by (intro conjI)
qed

text \<open>
  C7. For the element whose nodes are the eight corners \<open>(+-1, +-1, +-1)\<close> in the canonical
  order, at each of the eight Gauss points \<open>(+-1/sqrt 3, +-1/sqrt 3, +-1/sqrt 3)\<close>, and likewise
  at each of the test's quadrature points \<open>xi_q q\<close>, the Jacobian is the identity, the
  determinant is 1 and every physical gradient \<open>dNdX[a]\<close> is the reference gradient
  \<open>dNdXi[a]\<close>.
\<close>

theorem unit_cube_scenario:
  assumes "q < numQuadraturePoints" and "xi = gaussPoint q \<or> xi = xi_q q"
  shows "jacobian cubeCoords xi = identity3
       \<and> referenceAt cubeCoords xi =
           \<lparr>detJ = Inr 1, dNdX = Inr (map (dNdXi_a xi) [0..<numNodes])\<rparr>"
proof -
  from assms(2) have "length xi = 3"
    by (auto simp: length_xi_q length_gaussPoint)
  then show ?thesis
    by (simp add: jacobian_eq_J_spec J_spec_cube referenceAt_cube)
qed

theorem unit_cube_scenario_witness:
  "0 < numQuadraturePoints
   \<and> gaussPoint 0 = [- (1 / sqrt 3), - (1 / sqrt 3), - (1 / sqrt 3)]
   \<and> jacobian cubeCoords (gaussPoint 0) = identity3
   \<and> referenceAt cubeCoords (gaussPoint 0) =
           \<lparr>detJ = Inr 1, dNdX = Inr (map (dNdXi_a (gaussPoint 0)) [0..<numNodes])\<rparr>
   \<and> snd (testKernelDriver cubeCoords 0) =
           \<lparr>detJ = Inr 1, dNdX = Inr (map (dNdXi_a (xi_q 0)) [0..<numNodes])\<rparr>"
proof -
  have g: "gaussPoint 0 = [- (1 / sqrt 3), - (1 / sqrt 3), - (1 / sqrt 3)]"
    by (rule gaussPoint_0)
  have a: "gaussPoint 0 = gaussPoint 0 \<or> gaussPoint 0 = xi_q 0" by simp
  have b: "xi_q 0 = gaussPoint 0 \<or> xi_q 0 = xi_q 0" by simp
  from unit_cube_scenario [OF numQuadraturePoints_pos a] unit_cube_scenario [OF numQuadraturePoints_pos b]
    numQuadraturePoints_pos g
  show ?thesis
    unfolding testKernelDriver_def Let_def snd_conv by (intro conjI) simp_all
qed

end
